theory Spec2Isabelle
  imports Main "HOL-Library.Multiset"
begin

section \<open>Connection registry (app/websocket\_manager.py)\<close>

text \<open>
  A WebSocket object is compared by identity (Python's \<^verbatim>\<open>ws in connections\<close> and
  \<^verbatim>\<open>connections.remove(ws)\<close> on objects without a value equality), so a channel is
  modelled by the number that names the object.
\<close>

type_synonym ws = nat

text \<open>
  What the registry and the socket endpoint can observe of the channels: the dictionary
  \<^verbatim>\<open>ConnectionManager.active\<close>, whether \<^verbatim>\<open>accept()\<close> was called on a
  channel, the texts \<^verbatim>\<open>send_text\<close> delivered to it (the
  \<^verbatim>\<open>sent_messages\<close> of the test suite's DummyWebSocket), the code it was closed
  with, and whether the peer is gone, in which case \<^verbatim>\<open>send_text\<close> raises.
  \<^verbatim>\<open>accept()\<close> returns normally, as the DummyWebSocket's does.
\<close>

record world =
  active :: "int \<rightharpoonup> ws list"
  accepted :: "ws \<Rightarrow> bool"
  sent_messages :: "ws \<Rightarrow> string list"
  close_code :: "ws \<rightharpoonup> nat"
  unreachable :: "ws \<Rightarrow> bool"

datatype ws_error = SendFailed ws

text \<open>\<^verbatim>\<open>ConnectionManager.__init__\<close>: no room, nothing sent, every peer reachable.\<close>

definition init_world :: world where
  "init_world =
     \<lparr>active = Map.empty, accepted = (\<lambda>_. False), sent_messages = (\<lambda>_. []),
      close_code = Map.empty, unreachable = (\<lambda>_. False)\<rparr>"

text \<open>\<^verbatim>\<open>self.active.get(ticket_id, [])\<close>\<close>

definition room :: "world \<Rightarrow> int \<Rightarrow> ws list" where
  "room w ticket_id = (case active w ticket_id of None \<Rightarrow> [] | Some connections \<Rightarrow> connections)"

text \<open>
  \<^verbatim>\<open>await ws.accept(); self.active.setdefault(ticket_id, []).append(ws)\<close>
\<close>

definition connect :: "int \<Rightarrow> ws \<Rightarrow> world \<Rightarrow> world" where
  "connect ticket_id c w =
     w\<lparr>accepted := (accepted w)(c := True),
       active := (active w)(ticket_id \<mapsto> room w ticket_id @ [c])\<rparr>"

text \<open>
  \<^verbatim>\<open>connections = self.active.get(ticket_id, []); if ws in connections: connections.remove(ws)\<close>.
  \<^verbatim>\<open>list.remove\<close> deletes the first occurrence. For a ticket id that is no key the
  default list is a fresh one, the test is false and the dictionary is untouched.
\<close>

definition disconnect :: "int \<Rightarrow> ws \<Rightarrow> world \<Rightarrow> world" where
  "disconnect ticket_id c w =
     (let connections = room w ticket_id in
      if c \<in> set connections
      then w\<lparr>active := (active w)(ticket_id \<mapsto> remove1 c connections)\<rparr>
      else w)"

text \<open>
  \<^verbatim>\<open>ws.send_text(message)\<close>: raises when the peer is gone, otherwise the text is
  delivered.
\<close>

definition send_text :: "ws \<Rightarrow> string \<Rightarrow> world \<Rightarrow> ws_error + world" where
  "send_text c message w =
     (if unreachable w c then Inl (SendFailed c)
      else Inr (w\<lparr>sent_messages := (sent_messages w)(c := sent_messages w c @ [message])\<rparr>))"

text \<open>
  \<^verbatim>\<open>for ws in self.active.get(ticket_id, []): await ws.send_text(message)\<close>.
  There is no handler around the send: the first exception leaves the loop and the
  function, and what was delivered before it stays delivered. The result is the exception
  (if any) together with the state reached.
\<close>

fun send_all :: "string \<Rightarrow> ws list \<Rightarrow> world \<Rightarrow> ws_error option \<times> world" where
  "send_all message [] w = (None, w)"
| "send_all message (c # cs) w =
     (case send_text c message w of
        Inl e \<Rightarrow> (Some e, w)
      | Inr w' \<Rightarrow> send_all message cs w')"

definition broadcast :: "int \<Rightarrow> string \<Rightarrow> world \<Rightarrow> ws_error option \<times> world" where
  "broadcast ticket_id message w = send_all message (room w ticket_id) w"

section \<open>Socket endpoint (routers/websocket\_router.py)\<close>

text \<open>
  What the client does after the handshake: text frames, then possibly a disconnect.
  \<^verbatim>\<open>while True: await websocket.receive_text()\<close> leaves only through
  \<^verbatim>\<open>WebSocketDisconnect\<close>; when the frames received so far hold no disconnect the
  handler is still suspended in \<^verbatim>\<open>receive_text\<close>. The result says whether the
  exception was raised.
\<close>

datatype ws_event = Text string | Disconnect

fun receive_loop :: "ws_event list \<Rightarrow> bool" where
  "receive_loop [] = False"
| "receive_loop (Text incoming_messages # evs) = receive_loop evs"
| "receive_loop (Disconnect # evs) = True"

text \<open>
  \<^verbatim>\<open>ticket_ws(ticket_id, websocket)\<close>. \<^verbatim>\<open>token\<close> is
  \<^verbatim>\<open>websocket.query_params.get("token")\<close>; \<^verbatim>\<open>not token\<close> holds for a
  missing parameter and for an empty one. Nothing else is done with the token.
\<close>

definition ticket_ws :: "int \<Rightarrow> ws \<Rightarrow> string option \<Rightarrow> ws_event list \<Rightarrow> world \<Rightarrow> world" where
  "ticket_ws ticket_id websocket token evs w =
     (if token = None \<or> token = Some []
      then w\<lparr>close_code := (close_code w)(websocket \<mapsto> 4401)\<rparr>
      else let w' = connect ticket_id websocket w in
           if receive_loop evs then disconnect ticket_id websocket w' else w')"

section \<open>Persisted data (app/models.py, app/schemas.py)\<close>

datatype UserRole = Role_user | Role_agent

datatype TicketStatus = Status_open | Status_in_review | Status_close

record User =
  user_id :: int
  user_email :: string
  hashed_password :: string
  user_role :: UserRole

record Ticket =
  ticket_id :: int
  title :: string
  description :: "string option"
  status :: TicketStatus
  created_at :: nat
  created_by :: int

record Reply =
  reply_id :: int
  reply_ticket_id :: int
  message :: string
  reply_created_at :: nat
  replied_by :: int

text \<open>
  The tables. Tickets are keyed by their primary key; the replies are kept in the order
  of their insertion; \<open>ticket_seq\<close> and \<open>reply_seq\<close> are the last values the
  autoincrement keys took.
\<close>

record database =
  users :: "User list"
  tickets :: "int \<rightharpoonup> Ticket"
  replies :: "Reply list"
  ticket_seq :: int
  reply_seq :: int

text \<open>
  What the code leaves to the database engine behind \<^verbatim>\<open>DATABASE_URL\<close>: whether the
  declared foreign keys are enforced at commit (PostgreSQL, the default, enforces them;
  the SQLite file of the test suite does not), and the order in which a
  \<^verbatim>\<open>SELECT\<close> without \<^verbatim>\<open>ORDER BY\<close> yields the rows of the replies table.
\<close>

record backend =
  enforces_fk :: bool
  row_order :: "Reply list \<Rightarrow> Reply list"

datatype db_error = IntegrityError | InvalidRequestError

text \<open>The foreign key \<^verbatim>\<open>ForeignKey("users.id")\<close>.\<close>

definition user_exists :: "database \<Rightarrow> int \<Rightarrow> bool" where
  "user_exists db uid = (uid \<in> set (map user_id (users db)))"

section \<open>Credential service (app/auth.py)\<close>

text \<open>
  \<^verbatim>\<open>jwt.decode\<close> belongs to a library: it is a parameter, \<open>None\<close> for a
  \<^verbatim>\<open>JWTError\<close>, otherwise the value of \<^verbatim>\<open>payload.get("sub")\<close>.
\<close>

definition get_current_user ::
  "(string \<Rightarrow> string option option) \<Rightarrow> database \<Rightarrow> string \<Rightarrow> User option" where
  "get_current_user jwt_decode db token =
     (case jwt_decode token of
        None \<Rightarrow> None
      | Some None \<Rightarrow> None
      | Some (Some email) \<Rightarrow> find (\<lambda>u. user_email u = email) (users db))"

definition validate_websocket_token ::
  "(string \<Rightarrow> string option option) \<Rightarrow> database \<Rightarrow> string \<Rightarrow> User option" where
  "validate_websocket_token jwt_decode db token = get_current_user jwt_decode db token"

section \<open>Ticket workflow store (operations/ticket\_operations.py)\<close>

text \<open>
  \<^verbatim>\<open>create_ticket\<close>: the row gets the next key, the column default
  \<^verbatim>\<open>TicketStatus.open\<close> and the server's clock reading \<open>now\<close>
  (\<^verbatim>\<open>server_default=func.now()\<close>); the commit fails on a backend that enforces the
  foreign key when \<open>created_by\<close> is no user's id. The refreshed row is returned.
\<close>

definition create_ticket ::
  "backend \<Rightarrow> database \<Rightarrow> nat \<Rightarrow> string \<Rightarrow> string option \<Rightarrow> int \<Rightarrow> db_error + (database \<times> Ticket)" where
  "create_ticket be db now ttl descr owner =
     (if enforces_fk be \<and> \<not> user_exists db owner then Inl IntegrityError
      else
        let tid = ticket_seq db + 1;
            ticket = \<lparr>ticket_id = tid, title = ttl, description = descr,
                      status = Status_open, created_at = now, created_by = owner\<rparr>
        in Inr (db\<lparr>tickets := (tickets db)(tid \<mapsto> ticket), ticket_seq := tid\<rparr>, ticket))"

text \<open>
  A ticket as \<^verbatim>\<open>get_ticket\<close> loads it: the row, its replies
  (\<^verbatim>\<open>joinedload(Ticket.replies)\<close>; the relationship declares no
  \<^verbatim>\<open>order_by\<close>) and its creator.
\<close>

record LoadedTicket =
  row :: Ticket
  loaded_replies :: "Reply list"
  creator :: "User option"

definition get_ticket :: "backend \<Rightarrow> database \<Rightarrow> int \<Rightarrow> LoadedTicket option" where
  "get_ticket be db tid =
     (case tickets db tid of
        None \<Rightarrow> None
      | Some ticket \<Rightarrow>
          Some \<lparr>row = ticket,
                loaded_replies = row_order be (filter (\<lambda>r. reply_ticket_id r = tid) (replies db)),
                creator = find (\<lambda>u. user_id u = created_by ticket) (users db)\<rparr>)"

definition add_reply ::
  "backend \<Rightarrow> database \<Rightarrow> nat \<Rightarrow> int \<Rightarrow> string \<Rightarrow> int \<Rightarrow> db_error + (database \<times> Reply option)" where
  "add_reply be db now tid msg replier =
     (case tickets db tid of
        None \<Rightarrow> Inr (db, None)
      | Some ticket \<Rightarrow>
          if enforces_fk be \<and> \<not> user_exists db replier then Inl IntegrityError
          else
            let rid = reply_seq db + 1;
                reply = \<lparr>reply_id = rid, reply_ticket_id = tid, message = msg,
                         reply_created_at = now, replied_by = replier\<rparr>
            in Inr (db\<lparr>replies := replies db @ [reply], reply_seq := rid\<rparr>, Some reply))"

text \<open>
  \<^verbatim>\<open>change_ticket_status\<close>: \<^verbatim>\<open>ticket.status = ticket_status\<close>, commit,
  refresh. The commit updates the status column of the row with the ticket's key; the
  refresh reads that row back, and raises for an object that is no row of the session.
\<close>

definition change_ticket_status ::
  "database \<Rightarrow> Ticket \<Rightarrow> TicketStatus \<Rightarrow> db_error + (database \<times> Ticket)" where
  "change_ticket_status db ticket ticket_status =
     (case tickets db (ticket_id ticket) of
        None \<Rightarrow> Inl InvalidRequestError
      | Some stored \<Rightarrow>
          let updated = stored\<lparr>status := ticket_status\<rparr>
          in Inr (db\<lparr>tickets := (tickets db)(ticket_id ticket \<mapsto> updated)\<rparr>, updated))"

definition get_ticket_with_replies ::
  "backend \<Rightarrow> database \<Rightarrow> int \<Rightarrow> (LoadedTicket \<times> Reply list) option" where
  "get_ticket_with_replies be db tid =
     (case get_ticket be db tid of
        None \<Rightarrow> None
      | Some ticket \<Rightarrow> Some (ticket, loaded_replies ticket))"

section \<open>HTTP routes (routers/ticket\_router.py)\<close>

text \<open>
  A route ends with its response model or with a failure: an
  \<^verbatim>\<open>HTTPException\<close> with its status code and detail, or an exception nobody
  handles (the framework answers 500).
\<close>

datatype failure = HTTPException nat string | UnhandledWs ws_error | UnhandledDb db_error

record TicketRead =
  tr_id :: int
  tr_title :: string
  tr_description :: "string option"
  tr_status :: TicketStatus
  tr_created_by :: int

record ReplyRead =
  rr_id :: int
  rr_message :: string
  rr_replied_by :: int

record TicketDetail =
  detail_ticket :: TicketRead
  detail_replies :: "ReplyRead list"

definition ticket_read :: "Ticket \<Rightarrow> TicketRead" where
  "ticket_read t =
     \<lparr>tr_id = ticket_id t, tr_title = title t, tr_description = description t,
      tr_status = status t, tr_created_by = created_by t\<rparr>"

definition reply_read :: "Reply \<Rightarrow> ReplyRead" where
  "reply_read r = \<lparr>rr_id = reply_id r, rr_message = message r, rr_replied_by = replied_by r\<rparr>"

text \<open>\<^verbatim>\<open>get_ticket_detail(ticket_id, db, current_user)\<close>\<close>

definition get_ticket_detail :: "backend \<Rightarrow> database \<Rightarrow> int \<Rightarrow> User \<Rightarrow> failure + TicketDetail" where
  "get_ticket_detail be db tid current_user =
     (case get_ticket_with_replies be db tid of
        None \<Rightarrow> Inl (HTTPException 404 ''Ticket not found'')
      | Some (ticket, rs) \<Rightarrow>
          let is_user = (user_role current_user = Role_user);
              is_not_owner = (created_by (row ticket) \<noteq> user_id current_user)
          in if is_user \<and> is_not_owner then Inl (HTTPException 403 ''Not allowed'')
             else Inr \<lparr>detail_ticket = ticket_read (row ticket),
                       detail_replies = map reply_read rs\<rparr>)"

text \<open>
  Python's decimal rendering of an integer, as the f-string \<^verbatim>\<open>f"...#{ticket_id}..."\<close>
  produces it.
\<close>

definition digit_char :: "nat \<Rightarrow> char" where
  "digit_char d = char_of (48 + d)"

function show_nat :: "nat \<Rightarrow> string" where
  "show_nat n = (if n < 10 then [digit_char n] else show_nat (n div 10) @ [digit_char (n mod 10)])"
  by pat_completeness auto
termination
  by (relation "measure (\<lambda>n. n)") auto

declare show_nat.simps [simp del]

definition show_int :: "int \<Rightarrow> string" where
  "show_int i = (if i < 0 then CHR ''-'' # show_nat (nat (- i)) else show_nat (nat i))"

text \<open>The jobs handed to the task queue (app/tasks.py), with their arguments.\<close>

datatype job = send_email_notification string string | log_reply int string string

text \<open>What a request leaves behind besides its response.\<close>

record 'a outcome =
  response :: "failure + 'a"
  db_after :: database
  world_after :: world
  queued :: "job list"

text \<open>\<^verbatim>\<open>f"New reply by {agent.email}: {payload.message}"\<close>\<close>

definition reply_announcement :: "User \<Rightarrow> string \<Rightarrow> string" where
  "reply_announcement agent msg = ''New reply by '' @ user_email agent @ '': '' @ msg"

text \<open>
  The route \<^verbatim>\<open>add_reply(ticket_id, payload, db, agent)\<close>, after
  \<^verbatim>\<open>require_agent\<close> has let the request through. The broadcast is awaited after the
  reply has been committed and before the jobs are queued; an exception of the
  broadcast is not caught.
\<close>

definition router_add_reply ::
  "backend \<Rightarrow> database \<Rightarrow> world \<Rightarrow> nat \<Rightarrow> int \<Rightarrow> string \<Rightarrow> User \<Rightarrow> ReplyRead outcome" where
  "router_add_reply be db w now tid msg agent =
     (case get_ticket be db tid of
        None \<Rightarrow>
          \<lparr>response = Inl (HTTPException 404 ''Ticket not found''),
           db_after = db, world_after = w, queued = []\<rparr>
      | Some ticket \<Rightarrow>
          (case add_reply be db now tid msg (user_id agent) of
             Inl e \<Rightarrow> \<lparr>response = Inl (UnhandledDb e), db_after = db, world_after = w, queued = []\<rparr>
           | Inr (db', None) \<Rightarrow>
               \<lparr>response = Inl (HTTPException 404 ''Ticket not found''),
                db_after = db', world_after = w, queued = []\<rparr>
           | Inr (db', Some reply) \<Rightarrow>
               (case broadcast tid (reply_announcement agent msg) w of
                  (Some e, w') \<Rightarrow>
                    \<lparr>response = Inl (UnhandledWs e), db_after = db', world_after = w', queued = []\<rparr>
                | (None, w') \<Rightarrow>
                    \<lparr>response = Inr (reply_read reply), db_after = db', world_after = w',
                     queued =
                       (case creator ticket of
                          None \<Rightarrow> []
                        | Some u \<Rightarrow>
                            if user_email u = [] then []
                            else [send_email_notification (user_email u)
                                    (''Your ticket #'' @ show_int tid @ '' has a new reply.'')])
                       @ [log_reply tid msg (user_email agent)]\<rparr>)))"

section \<open>Example states\<close>



text \<open>A socket whose peer is gone, registered before a healthy one.\<close>

definition lost_peer :: world where
  "lost_peer = (connect 1 11 (connect 1 10 init_world))\<lparr>unreachable := (\<lambda>c. c = 10)\<rparr>"

text \<open>
  Users (an owner, an agent, a bystander), a ticket of the owner's and the table that
  holds them; the tables after one and after two replies of the agent.
\<close>

definition alice :: User where
  "alice = \<lparr>user_id = 1, user_email = ''alice@x.com'', hashed_password = ''h1'', user_role = Role_user\<rparr>"

definition bob :: User where
  "bob = \<lparr>user_id = 2, user_email = ''bob@x.com'', hashed_password = ''h2'', user_role = Role_agent\<rparr>"

definition carol :: User where
  "carol = \<lparr>user_id = 3, user_email = ''carol@x.com'', hashed_password = ''h3'', user_role = Role_user\<rparr>"

definition printer :: Ticket where
  "printer = \<lparr>ticket_id = 1, title = ''Printer'', description = None, status = Status_open,
              created_at = 100, created_by = 1\<rparr>"

definition desk :: database where
  "desk = \<lparr>users = [alice, bob, carol], tickets = [1 \<mapsto> printer], replies = [],
           ticket_seq = 1, reply_seq = 0\<rparr>"

definition first_reply :: Reply where
  "first_reply = \<lparr>reply_id = 1, reply_ticket_id = 1, message = ''first'',
                  reply_created_at = 200, replied_by = 2\<rparr>"

definition second_reply :: Reply where
  "second_reply = \<lparr>reply_id = 2, reply_ticket_id = 1, message = ''second'',
                   reply_created_at = 300, replied_by = 2\<rparr>"

definition one_reply :: database where
  "one_reply = desk\<lparr>replies := [first_reply], reply_seq := 1\<rparr>"

definition two_replies :: database where
  "two_replies = desk\<lparr>replies := [first_reply, second_reply], reply_seq := 2\<rparr>"

text \<open>Two engines that enforce foreign keys: one yields rows as inserted, one latest first.\<close>

definition in_order :: backend where
  "in_order = \<lparr>enforces_fk = True, row_order = (\<lambda>rs. rs)\<rparr>"

definition reversing :: backend where
  "reversing = \<lparr>enforces_fk = True, row_order = rev\<rparr>"

section \<open>Properties of the registry\<close>

lemma send_all_frame:
  "active (snd (send_all m cs w)) = active w \<and>
   unreachable (snd (send_all m cs w)) = unreachable w \<and>
   accepted (snd (send_all m cs w)) = accepted w \<and>
   close_code (snd (send_all m cs w)) = close_code w"
  by (induction cs arbitrary: w) (auto simp: send_text_def)



lemma send_all_first_failure:
  "list_all (\<lambda>c. \<not> unreachable w c) xs \<Longrightarrow> unreachable w c \<Longrightarrow>
     fst (send_all m (xs @ c # ys) w) = Some (SendFailed c) \<and>
     sent_messages (snd (send_all m (xs @ c # ys) w)) d =
       sent_messages w d @ replicate (count_list xs d) m"
proof (induction xs arbitrary: w)
  case Nil
  then show ?case by (simp add: send_text_def)
next
  case (Cons x xs)
  let ?w' = "w\<lparr>sent_messages := (sent_messages w)(x := sent_messages w x @ [m])\<rparr>"
  from Cons.prems have ok: "\<not> unreachable w x"
    and rest: "list_all (\<lambda>c. \<not> unreachable ?w' c) xs" and bad: "unreachable ?w' c"
    by simp_all
  have step: "send_all m ((x # xs) @ c # ys) w = send_all m (xs @ c # ys) ?w'"
    using ok by (simp add: send_text_def)
  from Cons.IH [OF rest bad] show ?case
    unfolding step by (auto simp: replicate_append_same)
qed

lemma connect_room: "room (connect t c w) t' = (if t' = t then room w t @ [c] else room w t')"
  by (simp add: connect_def room_def)





subsection \<open>Fan-out stays inside the room\<close>



subsection \<open>Connect followed by disconnect\<close>




subsection \<open>No deduplication\<close>



subsection \<open>Unfolding the store and the example states\<close>

lemma get_ticket_Some:
  "tickets db tid = Some t \<Longrightarrow>
     get_ticket be db tid =
       Some \<lparr>row = t,
             loaded_replies = row_order be (filter (\<lambda>r. reply_ticket_id r = tid) (replies db)),
             creator = find (\<lambda>u. user_id u = created_by t) (users db)\<rparr>"
  by (simp add: get_ticket_def)

lemma add_reply_Some:
  "tickets db tid = Some t \<Longrightarrow> enforces_fk be \<longrightarrow> user_exists db a \<Longrightarrow>
     add_reply be db now tid msg a =
       Inr (db\<lparr>replies := replies db @
                 [\<lparr>reply_id = reply_seq db + 1, reply_ticket_id = tid, message = msg,
                   reply_created_at = now, replied_by = a\<rparr>],
               reply_seq := reply_seq db + 1\<rparr>,
            Some \<lparr>reply_id = reply_seq db + 1, reply_ticket_id = tid, message = msg,
                   reply_created_at = now, replied_by = a\<rparr>)"
  by (auto simp: add_reply_def Let_def)

lemma desk_facts:
  "tickets desk 1 = Some printer" "user_exists desk 2" "replies desk = []" "reply_seq desk = 0"
  "users desk = [alice, bob, carol]"
  by (simp_all add: desk_def user_exists_def alice_def bob_def carol_def)

lemma lost_peer_facts:
  "room lost_peer 1 = [10, 11]" "unreachable lost_peer = (\<lambda>c. c = 10)"
  "sent_messages lost_peer = (\<lambda>_. [])"
  by (simp_all add: lost_peer_def room_def connect_def init_world_def)

subsection \<open>A send that fails\<close>

text \<open>
  Claim C2 as stated fails: with the unreachable socket 10 registered before socket 11,
  the broadcast raises at 10, socket 11 receives nothing, socket 10 stays registered, and
  the reply request that triggered the broadcast ends with the unhandled exception.
\<close>

theorem broadcast_failure_counterexample:
  "fst (broadcast 1 ''hi'' lost_peer) = Some (SendFailed 10) \<and>
   sent_messages (snd (broadcast 1 ''hi'' lost_peer)) 11 = [] \<and>
   room (snd (broadcast 1 ''hi'' lost_peer)) 1 = [10, 11] \<and>
   response (router_add_reply in_order desk lost_peer 200 1 ''on it'' bob) =
     Inl (UnhandledWs (SendFailed 10))"
proof -
  have b: "broadcast 1 m lost_peer = (Some (SendFailed 10), lost_peer)" for m
    by (simp add: broadcast_def lost_peer_facts send_text_def)
  have fk: "enforces_fk in_order \<longrightarrow> user_exists desk (user_id bob)"
    by (simp add: desk_facts bob_def)
  show ?thesis
    by (simp add: b lost_peer_facts router_add_reply_def
        get_ticket_Some [OF desk_facts(1)] add_reply_Some [OF desk_facts(1) fk])
qed

text \<open>
  Claim C2, amended. When the room of \<open>t\<close> is \<open>xs @ c # ys\<close>, the sends to
  \<open>xs\<close> succeed and the send to \<open>c\<close> fails, \<open>broadcast t m\<close> raises the
  failure of \<open>c\<close>; exactly the channels of \<open>xs\<close> have received \<open>m\<close> (once per
  occurrence in \<open>xs\<close>), so \<open>c\<close> and the channels that occur only in \<open>ys\<close>
  have not; nothing is removed from the registry. The reply request of an agent on an
  existing ticket then ends with that unhandled failure, after its reply row was
  committed and with no job queued.
\<close>

theorem broadcast_stops_at_first_failure:
  "room w t = xs @ c # ys \<Longrightarrow> list_all (\<lambda>x. \<not> unreachable w x) xs \<Longrightarrow> unreachable w c \<Longrightarrow>
     fst (broadcast t m w) = Some (SendFailed c) \<and>
     (\<forall>d. sent_messages (snd (broadcast t m w)) d =
            sent_messages w d @ replicate (count_list xs d) m) \<and>
     active (snd (broadcast t m w)) = active w \<and>
     (tickets db t = Some tk \<and> (enforces_fk be \<longrightarrow> user_exists db (user_id agent)) \<longrightarrow>
        response (router_add_reply be db w now t msg agent) = Inl (UnhandledWs (SendFailed c)) \<and>
        length (replies (db_after (router_add_reply be db w now t msg agent))) =
          Suc (length (replies db)) \<and>
        queued (router_add_reply be db w now t msg agent) = [])"
proof -
  assume r: "room w t = xs @ c # ys" and ok: "list_all (\<lambda>x. \<not> unreachable w x) xs"
    and bad: "unreachable w c"
  have f: "fst (broadcast t m' w) = Some (SendFailed c)" for m'
    using send_all_first_failure [OF ok bad] by (simp add: broadcast_def r)
  have s: "sent_messages (snd (broadcast t m w)) d =
            sent_messages w d @ replicate (count_list xs d) m" for d
    using send_all_first_failure [OF ok bad] by (simp add: broadcast_def r)
  have a: "active (snd (broadcast t m w)) = active w"
    by (simp add: broadcast_def send_all_frame)
  have route: "response (router_add_reply be db w now t msg agent) = Inl (UnhandledWs (SendFailed c)) \<and>
        length (replies (db_after (router_add_reply be db w now t msg agent))) =
          Suc (length (replies db)) \<and>
        queued (router_add_reply be db w now t msg agent) = []"
    if tk: "tickets db t = Some tk" and fk: "enforces_fk be \<longrightarrow> user_exists db (user_id agent)"
  proof -
    obtain w' where b: "broadcast t (reply_announcement agent msg) w =
        (Some (SendFailed c), w')"
      using f [of "reply_announcement agent msg"]
      by (cases "broadcast t (reply_announcement agent msg) w") simp
    show ?thesis
      by (simp add: router_add_reply_def get_ticket_Some [OF tk] add_reply_Some [OF tk fk] b)
  qed
  from f s a route show ?thesis by blast
qed

theorem broadcast_stops_at_first_failure_witness:
  "room lost_peer 1 = [] @ 10 # [11] \<and> list_all (\<lambda>x. \<not> unreachable lost_peer x) [] \<and>
   unreachable lost_peer 10 \<and>
   fst (broadcast 1 ''hi'' lost_peer) = Some (SendFailed 10) \<and>
   sent_messages (snd (broadcast 1 ''hi'' lost_peer)) 11 = [] \<and>
   active (snd (broadcast 1 ''hi'' lost_peer)) = active lost_peer \<and>
   tickets desk 1 = Some printer \<and> user_exists desk (user_id bob) \<and>
   response (router_add_reply in_order desk lost_peer 200 1 ''on it'' bob) =
     Inl (UnhandledWs (SendFailed 10)) \<and>
   length (replies (db_after (router_add_reply in_order desk lost_peer 200 1 ''on it'' bob))) = 1 \<and>
   queued (router_add_reply in_order desk lost_peer 200 1 ''on it'' bob) = []"
proof -
  have r: "room lost_peer 1 = [] @ 10 # [11]" by (simp add: lost_peer_facts)
  have ok: "list_all (\<lambda>x. \<not> unreachable lost_peer x) []" by simp
  have bad: "unreachable lost_peer 10" by (simp add: lost_peer_facts)
  have u: "user_exists desk (user_id bob)" by (simp add: desk_facts bob_def)
  show ?thesis
    using broadcast_stops_at_first_failure [OF r ok bad, of "''hi''" desk printer in_order bob 200 "''on it''"]
    by (simp add: lost_peer_facts desk_facts u)
qed

section \<open>Properties of the socket endpoint\<close>

text \<open>
  Claim C1. The endpoint only tests that the token parameter is present and not empty: a
  request without it is closed with code 4401 and never reaches \<open>connect\<close>. A token
  that the credential service rejects (here: every decoding fails) is never looked at:
  the socket is accepted and registered, and not closed.
\<close>

theorem ticket_ws_registers_unverified_token:
  "validate_websocket_token (\<lambda>_. None) db ''garbage'' = None \<and>
   accepted (ticket_ws t c (Some ''garbage'') [] w) c \<and>
   room (ticket_ws t c (Some ''garbage'') [] w) t = room w t @ [c] \<and>
   close_code (ticket_ws t c (Some ''garbage'') [] w) = close_code w \<and>
   ticket_ws t c None evs w = w\<lparr>close_code := (close_code w)(c \<mapsto> 4401)\<rparr>"
  by (simp add: validate_websocket_token_def get_current_user_def ticket_ws_def connect_room)
    (simp add: connect_def)

section \<open>Properties of the workflow store and the routes\<close>

subsection \<open>Who may view a ticket\<close>

text \<open>
  Claim C5. For an existing ticket, \<open>get_ticket_detail\<close> answers with the detail
  exactly when the requester is an agent or the ticket's creator; any other requester
  gets the 403 failure, and the answer is never the 404 failure of a missing ticket.
\<close>

theorem ticket_detail_owner_or_agent:
  "tickets db tid = Some t \<Longrightarrow>
     ((\<exists>d. get_ticket_detail be db tid u = Inr d) \<longleftrightarrow>
        (user_role u = Role_agent \<or> user_id u = created_by t)) \<and>
     (\<not> (user_role u = Role_agent \<or> user_id u = created_by t) \<longrightarrow>
        get_ticket_detail be db tid u = Inl (HTTPException 403 ''Not allowed'')) \<and>
     get_ticket_detail be db tid u \<noteq> Inl (HTTPException 404 ''Ticket not found'')"
  by (cases "user_role u")
    (auto simp: get_ticket_detail_def get_ticket_with_replies_def get_ticket_Some Let_def)

theorem ticket_detail_owner_or_agent_witness:
  "tickets desk 1 = Some printer \<and>
   (\<exists>d. get_ticket_detail in_order desk 1 alice = Inr d) \<and> user_id alice = created_by printer \<and>
   (\<exists>d. get_ticket_detail in_order desk 1 bob = Inr d) \<and> user_role bob = Role_agent \<and>
   user_role carol \<noteq> Role_agent \<and> user_id carol \<noteq> created_by printer \<and>
   get_ticket_detail in_order desk 1 carol = Inl (HTTPException 403 ''Not allowed'')"
  using ticket_detail_owner_or_agent [OF desk_facts(1), of in_order alice]
    ticket_detail_owner_or_agent [OF desk_facts(1), of in_order bob]
    ticket_detail_owner_or_agent [OF desk_facts(1), of in_order carol]
  by (simp add: desk_facts alice_def bob_def carol_def printer_def)

subsection \<open>Replies need their ticket\<close>



subsection \<open>Status changes\<close>

text \<open>
  Claim C7. For a stored ticket and any new status, whatever the current one,
  \<open>change_ticket_status\<close> succeeds and returns the ticket with just its status
  replaced, which is also the row stored under the ticket's key afterwards. Doing it again
  changes nothing, and when the new status is the current one the database and the
  ticket are what they were.
\<close>

theorem change_status_overwrites:
  "tickets db (ticket_id tk) = Some tk \<Longrightarrow>
     (\<exists>db' tk'. change_ticket_status db tk s = Inr (db', tk') \<and>
        tk' = tk\<lparr>status := s\<rparr> \<and> status tk' = s \<and>
        tickets db' = (tickets db)(ticket_id tk \<mapsto> tk') \<and>
        change_ticket_status db' tk' s = Inr (db', tk') \<and>
        (status tk = s \<longrightarrow> db' = db \<and> tk' = tk))"
proof -
  assume stored: "tickets db (ticket_id tk) = Some tk"
  have same: "db\<lparr>tickets := (tickets db)(ticket_id tk \<mapsto> tk)\<rparr> = db"
    using stored by (simp add: fun_upd_idem)
  show ?thesis
    using stored same by (auto simp: change_ticket_status_def Let_def)
qed

theorem change_status_overwrites_witness:
  "tickets desk (ticket_id printer) = Some printer \<and>
   (\<exists>db'. change_ticket_status desk printer Status_close =
            Inr (db', printer\<lparr>status := Status_close\<rparr>)) \<and>
   status printer = Status_open \<and>
   change_ticket_status desk printer Status_open = Inr (desk, printer)"
proof -
  have stored: "tickets desk (ticket_id printer) = Some printer"
    by (simp add: desk_def printer_def)
  show ?thesis
    using change_status_overwrites [OF stored, of Status_close]
      change_status_overwrites [OF stored, of Status_open] stored
    by (auto simp: printer_def)
qed

subsection \<open>Order of the replies\<close>

text \<open>
  Claim C8 as stated fails: neither the query of \<open>get_ticket\<close> nor the relationship
  \<^verbatim>\<open>Ticket.replies\<close> orders the rows, so on an engine that yields the latest row
  first the two replies of a ticket come back with creation times 300, 200.
\<close>

theorem replies_order_counterexample:
  "add_reply reversing desk 200 1 ''first'' 2 = Inr (one_reply, Some first_reply) \<and>
   add_reply reversing one_reply 300 1 ''second'' 2 = Inr (two_replies, Some second_reply) \<and>
   get_ticket_with_replies reversing two_replies 1 =
     Some (\<lparr>row = printer, loaded_replies = [second_reply, first_reply], creator = Some alice\<rparr>,
           [second_reply, first_reply]) \<and>
   get_ticket_detail reversing two_replies 1 bob =
     Inr \<lparr>detail_ticket = ticket_read printer,
          detail_replies = [reply_read second_reply, reply_read first_reply]\<rparr> \<and>
   map reply_created_at [second_reply, first_reply] = [300, 200]"
proof -
  have t1: "tickets one_reply 1 = Some printer" "tickets two_replies 1 = Some printer"
    by (simp_all add: one_reply_def two_replies_def desk_def)
  have fk: "enforces_fk reversing \<longrightarrow> user_exists desk 2"
    "enforces_fk reversing \<longrightarrow> user_exists one_reply 2"
    by (simp_all add: one_reply_def user_exists_def desk_def alice_def bob_def carol_def)
  have a1: "add_reply reversing desk 200 1 ''first'' 2 = Inr (one_reply, Some first_reply)"
    using add_reply_Some [OF desk_facts(1) fk(1), of 200 "''first''"]
    by (simp add: one_reply_def first_reply_def desk_facts)
  have a2: "add_reply reversing one_reply 300 1 ''second'' 2 = Inr (two_replies, Some second_reply)"
    using add_reply_Some [OF t1(1) fk(2), of 300 "''second''"]
    by (simp add: one_reply_def two_replies_def second_reply_def)
  have g: "get_ticket reversing two_replies 1 =
     Some \<lparr>row = printer, loaded_replies = [second_reply, first_reply], creator = Some alice\<rparr>"
    by (simp add: get_ticket_Some [OF t1(2)])
      (simp add: two_replies_def desk_def reversing_def first_reply_def second_reply_def
        printer_def alice_def)
  have c: "user_role bob = Role_agent" by (simp add: bob_def)
  show ?thesis
    by (simp add: a1 a2 g get_ticket_with_replies_def get_ticket_detail_def c)
      (simp add: first_reply_def second_reply_def)
qed

text \<open>
  Claim C8, amended. For an existing ticket, on an engine whose row order is a
  rearrangement of the rows, the replies returned with the ticket are exactly the reply
  rows of that ticket, and the detail route renders them in the order returned. They are
  in insertion order when the engine yields rows as inserted, and then in ascending
  creation time when the table is.
\<close>

theorem replies_follow_backend_order:
  "tickets db tid = Some t \<Longrightarrow> (\<forall>xs. mset (row_order be xs) = mset xs) \<Longrightarrow>
     (\<exists>lt rs. get_ticket_with_replies be db tid = Some (lt, rs) \<and> row lt = t \<and>
        mset rs = mset (filter (\<lambda>r. reply_ticket_id r = tid) (replies db)) \<and>
        (\<forall>u d. get_ticket_detail be db tid u = Inr d \<longrightarrow> detail_replies d = map reply_read rs) \<and>
        (row_order be = (\<lambda>xs. xs) \<longrightarrow>
           rs = filter (\<lambda>r. reply_ticket_id r = tid) (replies db) \<and>
           (sorted (map reply_created_at (replies db)) \<longrightarrow> sorted (map reply_created_at rs))))"
proof -
  assume tk: "tickets db tid = Some t" and perm: "\<forall>xs. mset (row_order be xs) = mset xs"
  let ?rs = "row_order be (filter (\<lambda>r. reply_ticket_id r = tid) (replies db))"
  let ?lt = "\<lparr>row = t, loaded_replies = ?rs,
              creator = find (\<lambda>u. user_id u = created_by t) (users db)\<rparr>"
  have g: "get_ticket_with_replies be db tid = Some (?lt, ?rs)"
    by (simp add: get_ticket_with_replies_def get_ticket_Some [OF tk])
  have m: "mset ?rs = mset (filter (\<lambda>r. reply_ticket_id r = tid) (replies db))"
    using perm by simp
  have d: "detail_replies d = map reply_read ?rs" if "get_ticket_detail be db tid u = Inr d" for u d
    using that by (auto simp: get_ticket_detail_def g Let_def split: if_splits)
  have s: "sorted (map reply_created_at (filter (\<lambda>r. reply_ticket_id r = tid) (replies db)))"
    if "sorted (map reply_created_at (replies db))"
    using that by (rule sorted_filter)
  have o: "?rs = filter (\<lambda>r. reply_ticket_id r = tid) (replies db) \<and>
           (sorted (map reply_created_at (replies db)) \<longrightarrow> sorted (map reply_created_at ?rs))"
    if "row_order be = (\<lambda>xs. xs)"
    using that s by simp
  show ?thesis
    using g m d o by (intro exI [of _ ?lt] exI [of _ ?rs]) simp
qed

theorem replies_follow_backend_order_witness:
  "tickets two_replies 1 = Some printer \<and> (\<forall>xs. mset (row_order in_order xs) = mset xs) \<and>
   row_order in_order = (\<lambda>xs. xs) \<and> sorted (map reply_created_at (replies two_replies)) \<and>
   (\<exists>lt. get_ticket_with_replies in_order two_replies 1 = Some (lt, [first_reply, second_reply]))"
proof -
  have tk: "tickets two_replies 1 = Some printer"
    by (simp add: two_replies_def desk_def)
  have perm: "\<forall>xs. mset (row_order in_order xs) = mset xs"
    by (simp add: in_order_def)
  have r: "replies two_replies = [first_reply, second_reply]"
    by (simp add: two_replies_def)
  have f: "reply_ticket_id first_reply = 1" "reply_ticket_id second_reply = 1"
    "reply_created_at first_reply = 200" "reply_created_at second_reply = 300"
    by (simp_all add: first_reply_def second_reply_def)
  show ?thesis
    using replies_follow_backend_order [OF tk perm] tk
    by (auto simp: in_order_def r f)
qed

subsection \<open>New tickets\<close>

text \<open>
  Claim C9. For any title and description and an owner who is a user,
  \<open>create_ticket\<close> succeeds on either kind of engine; the ticket it returns is open,
  is created by the owner, carries the server's clock reading and is the row stored
  under its key.
\<close>

theorem create_ticket_open_and_owned:
  "user_exists db owner \<Longrightarrow>
     (\<exists>db' t. create_ticket be db now ttl descr owner = Inr (db', t) \<and>
        status t = Status_open \<and> created_by t = owner \<and> created_at t = now \<and>
        title t = ttl \<and> description t = descr \<and> tickets db' (ticket_id t) = Some t)"
  by (simp add: create_ticket_def Let_def)

theorem create_ticket_open_and_owned_witness:
  "user_exists desk 1 \<and>
   (\<exists>db' t. create_ticket in_order desk 500 ''Mouse'' None 1 = Inr (db', t) \<and>
      status t = Status_open \<and> created_by t = 1 \<and> created_at t = 500)"
proof -
  have u: "user_exists desk 1" by (simp add: desk_facts user_exists_def alice_def)
  show ?thesis
    using create_ticket_open_and_owned [OF u, of in_order 500 "''Mouse''" None] u by auto
qed

end
